theory Spec2Isabelle
  imports Complex_Main "HOL-Library.AList"
begin

section \<open>Values, errors and the outside world\<close>

text \<open>
  The module \<^verbatim>\<open>nvcf_async.py\<close> talks to a remote function service through an
  \<^verbatim>\<open>aiohttp\<close> session. Python values that travel through the code (JSON structures,
  byte strings, \<^verbatim>\<open>None\<close>) are one datatype; a \<^verbatim>\<open>dict\<close> keeps its insertion order, so
  it is an association list. Floating point numbers inside JSON play no part in the code
  and are left out.
\<close>

datatype pyval =
    PNone
  | PBool bool
  | PInt int
  | PStr string
  | PBytes string
  | PList "pyval list"
  | PDict "(string \<times> pyval) list"

text \<open>
  Exceptions. \<open>client_error\<close> are the subclasses of \<^verbatim>\<open>aiohttp.ClientError\<close> that the
  transport raises; the code itself raises \<^verbatim>\<open>FileNotFoundError\<close>, \<^verbatim>\<open>TimeoutError\<close>,
  \<^verbatim>\<open>ValueError\<close> and (through \<^verbatim>\<open>assert\<close>) \<^verbatim>\<open>AssertionError\<close>; the others come from the
  Python operations it applies (subscripting, \<^verbatim>\<open>str.join\<close>, \<^verbatim>\<open>json.loads\<close>, decoding bytes
  to text, \<^verbatim>\<open>open\<close>, \<^verbatim>\<open>zipfile.ZipFile\<close>).
\<close>

datatype client_error = ConnectionTimeoutError | ContentTypeError | ClientConnectionError

datatype error =
    FileNotFoundError string
  | TimeoutError string
  | ValueError string
  | AssertionError
  | KeyError string
  | TypeError
  | JSONDecodeError
  | UnicodeDecodeError
  | BadZipFile
  | OSError
  | ClientError client_error

text \<open>
  An \<^verbatim>\<open>aiohttp.ClientResponse\<close>: its status, its declared content type, and what reading
  its body from the connection gives (the bytes, or the transport error raised while
  reading). The response keeps the bytes once they are read.
\<close>

record response =
  status :: int
  content_type :: string
  body :: "client_error + string"

datatype http_method = GET | POST | PUT

datatype payload = NoPayload | JsonPayload pyval | DataPayload string

record request =
  http_method :: http_method
  url :: string
  headers :: "(string \<times> string) list"
  payload :: payload

text \<open>
  What the program does to the world, in the order it does it: HTTP requests (with what
  came back), sleeps and printed lines. Calls of \<^verbatim>\<open>logging\<close> change no control flow and
  are not recorded.
\<close>

datatype event =
    Request request "client_error + response"
  | Sleep real
  | Print string

text \<open>
  The remote side: what the \<open>n\<close>-th request of the session (counted from 0) gets back,
  a response or a transport error. The functions below take the number of requests
  issued so far and return their result together with the events they produced.
\<close>

type_synonym server = "nat \<Rightarrow> request \<Rightarrow> client_error + response"

fun is_request :: "event \<Rightarrow> bool" where
  "is_request (Request q out) = True"
| "is_request (Sleep d) = False"
| "is_request (Print s) = False"

definition n_requests :: "event list \<Rightarrow> nat" where
  "n_requests evs = length (filter is_request evs)"

text \<open>
  The library functions the code calls, as parameters: \<^verbatim>\<open>json.loads\<close> (\<open>None\<close> when it
  raises \<^verbatim>\<open>JSONDecodeError\<close>), \<^verbatim>\<open>str()\<close> as used by f-strings, the decoding of a response
  body to text in the encoding the response declares (\<open>None\<close> when it raises
  \<^verbatim>\<open>UnicodeDecodeError\<close>), the test of \<^verbatim>\<open>aiohttp\<close> that a content type is a JSON type
  (\<^verbatim>\<open>application/json\<close>, \<^verbatim>\<open>application/...+json\<close>), \<^verbatim>\<open>zipfile.is_zipfile\<close>, and
  \<^verbatim>\<open>zipfile.ZipFile\<close> (the entries of the archive in the order of \<^verbatim>\<open>namelist()\<close>, each with
  its uncompressed bytes; \<open>None\<close> when it raises \<^verbatim>\<open>BadZipFile\<close>).
\<close>

record pylib =
  json_loads :: "string \<Rightarrow> pyval option"
  py_str :: "pyval \<Rightarrow> string"
  decode_text :: "string \<Rightarrow> string option"
  is_json_type :: "string \<Rightarrow> bool"
  is_zipfile :: "string \<Rightarrow> bool"
  zip_entries :: "string \<Rightarrow> (string \<times> string) list option"

text \<open>\<^verbatim>\<open>v[k]\<close> for a string key: only a dict can be subscripted by a string.\<close>

fun py_getitem :: "pyval \<Rightarrow> string \<Rightarrow> error + pyval" where
  "py_getitem (PDict kvs) k =
     (case map_of kvs k of None \<Rightarrow> Inl (KeyError k) | Some v \<Rightarrow> Inr v)"
| "py_getitem v k = Inl TypeError"

text \<open>\<^verbatim>\<open>bytes.strip()\<close>: without the ASCII white space at both ends.\<close>

definition is_space :: "char \<Rightarrow> bool" where
  "is_space c =
     (c = CHR '' '' \<or> c = CHR 0x09 \<or> c = CHR 0x0A \<or> c = CHR 0x0B \<or> c = CHR 0x0C \<or> c = CHR 0x0D)"

definition py_strip :: "string \<Rightarrow> string" where
  "py_strip s = rev (dropWhile is_space (rev (dropWhile is_space s)))"

text \<open>
  \<^verbatim>\<open>await response.read()\<close>. A response whose \<^verbatim>\<open>async with\<close> block has ended is released,
  and \<^verbatim>\<open>read()\<close> on a released response raises \<^verbatim>\<open>ClientConnectionError\<close>, also when the
  bytes were read before. Otherwise it gives the body.
\<close>

definition response_read :: "bool \<Rightarrow> response \<Rightarrow> client_error + string" where
  "response_read released r = (if released then Inl ClientConnectionError else body r)"

text \<open>
  \<^verbatim>\<open>await response.text()\<close>: the body, read now or kept from an earlier read (so a
  released response that was read answers too), decoded to text.
\<close>

definition response_body_text :: "pylib \<Rightarrow> response \<Rightarrow> error + string" where
  "response_body_text lib r =
     (case body r of
        Inl ce \<Rightarrow> Inl (ClientError ce)
      | Inr b \<Rightarrow>
          (case decode_text lib b of None \<Rightarrow> Inl UnicodeDecodeError | Some t \<Rightarrow> Inr t))"

text \<open>
  \<^verbatim>\<open>await response.json()\<close>: takes the body as \<^verbatim>\<open>text()\<close> does, refuses a content type that
  is not a JSON type with \<^verbatim>\<open>ContentTypeError\<close>, gives \<^verbatim>\<open>None\<close> for a blank body, and
  otherwise decodes the stripped body and parses it.
\<close>

definition response_json :: "pylib \<Rightarrow> response \<Rightarrow> error + pyval" where
  "response_json lib r =
     (case body r of
        Inl ce \<Rightarrow> Inl (ClientError ce)
      | Inr b \<Rightarrow>
          if \<not> is_json_type lib (content_type r) then Inl (ClientError ContentTypeError)
          else if py_strip b = [] then Inr PNone
          else
            (case decode_text lib (py_strip b) of
               None \<Rightarrow> Inl UnicodeDecodeError
             | Some t \<Rightarrow>
                (case json_loads lib t of None \<Rightarrow> Inl JSONDecodeError | Some j \<Rightarrow> Inr j)))"

section \<open>The polling engine\<close>

text \<open>
  The \<^verbatim>\<open>while\<close> loop of \<^verbatim>\<open>_poll_response_async\<close>, from a loop head with the current
  \<open>response\<close>, \<open>attempt\<close> and \<open>delay\<close>. It returns the response and the attempt counter the
  loop ends with, or the exception that left it. \<^verbatim>\<open>except aiohttp.ClientError\<close> logs and
  raises again, so a transport error leaves the loop as it is.
\<close>

function poll_loop ::
  "pylib \<Rightarrow> server \<Rightarrow> string \<Rightarrow> string \<Rightarrow> int \<Rightarrow> real \<Rightarrow>
   nat \<Rightarrow> response \<Rightarrow> int \<Rightarrow> real \<Rightarrow> (error + response \<times> int) \<times> event list" where
  "poll_loop lib srv token nvcf_url max_attempts max_backoff n response attempt delay =
     (if status response = 202 \<and> attempt < max_attempts then
        (case response_json lib response of
           Inl e \<Rightarrow> (Inl e, [])
         | Inr js \<Rightarrow>
            (case py_getitem js ''reqId'' of
               Inl e \<Rightarrow> (Inl e, [])
             | Inr request_id \<Rightarrow>
                (let rq = \<lparr>http_method = GET,
                           url = nvcf_url @ ''/exec/status/'' @ py_str lib request_id,
                           headers = [(''Authorization'', ''Bearer '' @ token)],
                           payload = NoPayload\<rparr>
                 in case srv n rq of
                      Inl ce \<Rightarrow> (Inl (ClientError ce), [Request rq (Inl ce)])
                    | Inr response' \<Rightarrow>
                       (case body response' of
                          Inl ce \<Rightarrow> (Inl (ClientError ce), [Request rq (Inr response')])
                        | Inr b \<Rightarrow>
                           if status response' \<noteq> 202
                           then (Inr (response', attempt), [Request rq (Inr response')])
                           else if attempt + 1 < max_attempts
                           then (case poll_loop lib srv token nvcf_url max_attempts max_backoff
                                        (Suc n) response' (attempt + 1)
                                        (min (delay * 2) max_backoff) of
                                   (res, evs) \<Rightarrow>
                                     (res, Request rq (Inr response')
                                           # Sleep (min (delay * 2) max_backoff) # evs))
                           else (case poll_loop lib srv token nvcf_url max_attempts max_backoff
                                        (Suc n) response' (attempt + 1) delay of
                                   (res, evs) \<Rightarrow> (res, Request rq (Inr response') # evs))))))
      else (Inr (response, attempt), []))"
  by pat_completeness auto
termination
  by (relation "measure (\<lambda>(lib, srv, token, nvcf_url, max_attempts, max_backoff, n,
                           response, attempt, delay). nat (max_attempts - attempt))") auto

text \<open>
  \<^verbatim>\<open>_poll_response_async(session, response, token, nvcf_url, initial_delay, max_attempts,
  max_backoff)\<close>: the loop from \<open>attempt = 0\<close> and \<open>delay = initial_delay\<close>, then the check of
  the attempt budget.
\<close>

definition poll_response_async ::
  "pylib \<Rightarrow> server \<Rightarrow> nat \<Rightarrow> response \<Rightarrow> string \<Rightarrow> string \<Rightarrow> real \<Rightarrow> int \<Rightarrow> real \<Rightarrow>
   (error + response) \<times> event list" where
  "poll_response_async lib srv n response token nvcf_url initial_delay max_attempts max_backoff =
     (case poll_loop lib srv token nvcf_url max_attempts max_backoff n response 0 initial_delay of
        (Inl e, evs) \<Rightarrow> (Inl e, evs)
      | (Inr (response', attempt), evs) \<Rightarrow>
          if attempt \<ge> max_attempts
          then (Inl (TimeoutError ''Maximum polling attempts reached''), evs)
          else (Inr response', evs))"


section \<open>The request builder\<close>

text \<open>
  \<^verbatim>\<open>str(i)\<close> for the integers the code formats: the decimal digits, with a sign for a
  negative number.
\<close>

fun str_nat :: "nat \<Rightarrow> string" where
  "str_nat n =
     (if n < 10 then [''0123456789'' ! n]
      else str_nat (n div 10) @ [''0123456789'' ! (n mod 10)])"

definition str_int :: "int \<Rightarrow> string" where
  "str_int i = (if i < 0 then CHR ''-'' # str_nat (nat (- i)) else str_nat (nat i))"

text \<open>\<^verbatim>\<open>sep.join(xs)\<close>: \<^verbatim>\<open>TypeError\<close> unless every item is a \<^verbatim>\<open>str\<close>.\<close>

fun str_join :: "string \<Rightarrow> string list \<Rightarrow> string" where
  "str_join sep [] = []"
| "str_join sep [x] = x"
| "str_join sep (x # y # ys) = x @ sep @ str_join sep (y # ys)"

fun strs_of :: "pyval list \<Rightarrow> string list option" where
  "strs_of [] = Some []"
| "strs_of (PStr s # xs) = map_option ((#) s) (strs_of xs)"
| "strs_of (v # xs) = None"

definition py_join :: "string \<Rightarrow> pyval list \<Rightarrow> error + string" where
  "py_join sep xs = (case strs_of xs of None \<Rightarrow> Inl TypeError | Some ss \<Rightarrow> Inr (str_join sep ss))"

text \<open>
  \<^verbatim>\<open>_format_request(command, token, asset_names)\<close>. The items of \<open>asset_names\<close> are what
  \<^verbatim>\<open>_prepare_local_asset_async\<close> returned, so they are Python values, not only strings.
\<close>

definition format_request ::
  "string \<Rightarrow> string \<Rightarrow> pyval list \<Rightarrow> error + pyval \<times> (string \<times> string) list" where
  "format_request command token asset_names =
     (let headers = [(''Authorization'', ''Bearer '' @ token),
                     (''Content-Type'', ''application/json''),
                     (''NVCF-POLL-SECONDS'', ''3600'')];
          inputs =
            PDict [(''name'', PStr ''command''), (''shape'', PList [PInt 1]),
                   (''datatype'', PStr ''BYTES''), (''data'', PList [PStr command])]
            # map (\<lambda>(i, asset).
                     PDict [(''name'', PStr (''image_assetId_'' @ str_nat i)),
                            (''shape'', PList [PInt 1]),
                            (''datatype'', PStr ''BYTES''),
                            (''data'', PList [asset])])
                (enumerate 0 asset_names)
      in if length asset_names > 0 then
           (case py_join '','' asset_names of
              Inl e \<Rightarrow> Inl e
            | Inr refs \<Rightarrow>
                Inr (PDict [(''inputs'', PList inputs)],
                     AList.update ''NVCF-INPUT-ASSET-REFERENCES'' refs headers))
         else Inr (PDict [(''inputs'', PList inputs)], headers))"

text \<open>\<^verbatim>\<open>_generate_command(api, params)\<close>; \<open>params\<close> in the iteration order of the dict.\<close>

definition generate_command :: "pylib \<Rightarrow> string \<Rightarrow> (string \<times> pyval) list \<Rightarrow> string" where
  "generate_command lib api params =
     (api @ '' '') @ str_join '' '' (map (\<lambda>(k, v). ''--'' @ k @ ''='' @ py_str lib v) params)"

section \<open>The asset uploader\<close>

definition NVCF_URL_PROD :: string where
  "NVCF_URL_PROD = ''https://api.nvcf.nvidia.com/v2/nvcf''"

definition FUNCTION_URL :: string where
  "FUNCTION_URL = ''https://ai.api.nvidia.com/v1/cosmos/nvidia/cosmos-transfer''"

text \<open>
  The local files: a path that does not exist is not in the map; a path that exists holds
  a file with its bytes, or something \<^verbatim>\<open>open\<close> cannot read (a directory, a file without
  permission).
\<close>

datatype fs_entry = File string | Unreadable

type_synonym filesystem = "string \<rightharpoonup> fs_entry"

text \<open>
  \<^verbatim>\<open>_create_asset_async\<close>: one POST, then \<^verbatim>\<open>await response.read()\<close>. The URL starts with
  a newline, as the f-string of the source does.
\<close>

definition create_asset_async ::
  "server \<Rightarrow> nat \<Rightarrow> string \<Rightarrow> string \<Rightarrow> string \<Rightarrow> string \<Rightarrow> (error + response) \<times> event list" where
  "create_asset_async srv n token asset_name ctype nvcf_url =
     (let rq = \<lparr>http_method = POST,
                url = CHR 0x0A # nvcf_url @ ''/assets'',
                headers = [(''Content-Type'', ''application/json''),
                           (''Authorization'', ''Bearer '' @ token)],
                payload = JsonPayload (PDict [(''contentType'', PStr ctype),
                                              (''description'', PStr asset_name)])\<rparr>
      in case srv n rq of
           Inl ce \<Rightarrow> (Inl (ClientError ce), [Request rq (Inl ce)])
         | Inr response \<Rightarrow>
            (case body response of
               Inl ce \<Rightarrow> (Inl (ClientError ce), [Request rq (Inr response)])
             | Inr b \<Rightarrow> (Inr response, [Request rq (Inr response)])))"

text \<open>
  \<^verbatim>\<open>_upload_asset_async\<close>: one PUT to the upload URL, then \<^verbatim>\<open>await response.read()\<close>. The
  URL is the value the creation response carried; the session refuses one that is not a
  string with \<^verbatim>\<open>TypeError\<close>.
\<close>

definition upload_asset_async ::
  "server \<Rightarrow> nat \<Rightarrow> pyval \<Rightarrow> string \<Rightarrow> string \<Rightarrow> string \<Rightarrow> (error + response) \<times> event list" where
  "upload_asset_async srv n asset_url asset_name ctype asset_data =
     (case asset_url of
        PStr u \<Rightarrow>
          (let rq = \<lparr>http_method = PUT,
                     url = u,
                     headers = [(''Content-Type'', ctype),
                                (''x-amz-meta-nvcf-asset-description'', asset_name)],
                     payload = DataPayload asset_data\<rparr>
           in case srv n rq of
                Inl ce \<Rightarrow> (Inl (ClientError ce), [Request rq (Inl ce)])
              | Inr response \<Rightarrow>
                 (case body response of
                    Inl ce \<Rightarrow> (Inl (ClientError ce), [Request rq (Inr response)])
                  | Inr b \<Rightarrow> (Inr response, [Request rq (Inr response)])))
      | _ \<Rightarrow> (Inl TypeError, []))"

text \<open>
  \<^verbatim>\<open>_prepare_local_asset_async\<close>. It returns the asset identifier of the creation
  response, or \<^verbatim>\<open>None\<close> (after a printed line) when the upload did not answer 200.
\<close>

definition prepare_local_asset_async ::
  "pylib \<Rightarrow> filesystem \<Rightarrow> server \<Rightarrow> nat \<Rightarrow> string \<Rightarrow> string \<Rightarrow> string \<Rightarrow> string \<Rightarrow>
   (error + pyval) \<times> event list" where
  "prepare_local_asset_async lib fs srv n token asset_name filepath nvcf_url =
     (if filepath = [] \<or> fs filepath = None
      then (Inl (FileNotFoundError (filepath @ '' not found'')), [])
      else
        (case fs filepath of
           None \<Rightarrow> (Inl (FileNotFoundError (filepath @ '' not found'')), [])
         | Some Unreadable \<Rightarrow> (Inl OSError, [])
         | Some (File file_binary) \<Rightarrow>
            (case create_asset_async srv n token asset_name ''binary/octet-stream'' nvcf_url of
               (Inl e, evs1) \<Rightarrow> (Inl e, evs1)
             | (Inr asset_result, evs1) \<Rightarrow>
                (case response_json lib asset_result of
                   Inl e \<Rightarrow> (Inl e, evs1)
                 | Inr result_json \<Rightarrow>
                    (case py_getitem result_json ''uploadUrl'' of
                       Inl e \<Rightarrow> (Inl e, evs1)
                     | Inr asset_url \<Rightarrow>
                        (case py_getitem result_json ''assetId'' of
                           Inl e \<Rightarrow> (Inl e, evs1)
                         | Inr asset_id \<Rightarrow>
                            (case upload_asset_async srv (n + n_requests evs1) asset_url
                                    asset_name ''binary/octet-stream'' file_binary of
                               (Inl e, evs2) \<Rightarrow> (Inl e, evs1 @ evs2)
                             | (Inr result, evs2) \<Rightarrow>
                                if status result \<noteq> 200 then
                                  (case response_body_text lib result of
                                     Inl e \<Rightarrow> (Inl e, evs1 @ evs2)
                                   | Inr response_text \<Rightarrow>
                                      (Inr PNone,
                                       evs1 @ evs2 @
                                       [Print (''Image upload failed with status code ''
                                               @ str_int (status result) @ '': ''
                                               @ response_text @ ''.'')]))
                                else (Inr asset_id, evs1 @ evs2))))))))"

section \<open>The response decoder\<close>

definition endswith :: "string \<Rightarrow> string \<Rightarrow> bool" where
  "endswith s suffix =
     (length suffix \<le> length s \<and> drop (length s - length suffix) s = suffix)"

text \<open>\<^verbatim>\<open>os.path.basename\<close>: what follows the last slash.\<close>

definition basename :: "string \<Rightarrow> string" where
  "basename p = rev (takeWhile (\<lambda>c. c \<noteq> CHR ''/'') (rev p))"

text \<open>
  \<^verbatim>\<open>zip_archive.read(name)\<close>: the bytes of the entry of that name; when several entries
  share a name, of the last one.
\<close>

definition zip_read :: "(string \<times> string) list \<Rightarrow> string \<Rightarrow> string option" where
  "zip_read archive name = map_of (rev archive) name"

text \<open>
  The \<^verbatim>\<open>for\<close> loop of \<^verbatim>\<open>_unpack_zip_response_async\<close> over the names still to visit, with
  the \<open>output\<close> dict built so far. Storing under a key that is there replaces its value
  in place; a new key goes to the end.
\<close>

fun unpack_entries ::
  "pylib \<Rightarrow> (string \<times> string) list \<Rightarrow> string list \<Rightarrow> (string \<times> pyval) list \<Rightarrow>
   error + (string \<times> pyval) list" where
  "unpack_entries lib archive [] output = Inr output"
| "unpack_entries lib archive (zipped_file # rest) output =
     (if endswith zipped_file ''.json'' then
        (case zip_read archive zipped_file of
           None \<Rightarrow> Inl (KeyError zipped_file)
         | Some data \<Rightarrow>
            (case json_loads lib data of
               None \<Rightarrow> Inl JSONDecodeError
             | Some v \<Rightarrow>
                unpack_entries lib archive rest
                  (AList.update (take (length (basename zipped_file) - 5) (basename zipped_file))
                     v output)))
      else if endswith zipped_file ''.png'' then
        (case zip_read archive zipped_file of
           None \<Rightarrow> Inl (KeyError zipped_file)
         | Some data \<Rightarrow>
            unpack_entries lib archive rest (AList.update ''image'' (PBytes data) output))
      else if endswith zipped_file ''.mp4'' then
        (case zip_read archive zipped_file of
           None \<Rightarrow> Inl (KeyError zipped_file)
         | Some data \<Rightarrow>
            unpack_entries lib archive rest (AList.update ''video'' (PBytes data) output))
      else unpack_entries lib archive rest output)"

text \<open>
  \<^verbatim>\<open>_unpack_zip_response_async\<close>; \<open>released\<close> tells whether the response it is given has
  been released.
\<close>

definition unpack_zip_response_async :: "pylib \<Rightarrow> bool \<Rightarrow> response \<Rightarrow> error + pyval" where
  "unpack_zip_response_async lib released response =
     (case response_read released response of
        Inl ce \<Rightarrow> Inl (ClientError ce)
      | Inr content \<Rightarrow>
          if \<not> is_zipfile lib content then Inl AssertionError
          else
            (case zip_entries lib content of
               None \<Rightarrow> Inl BadZipFile
             | Some archive \<Rightarrow>
                (case unpack_entries lib archive (map fst archive) [] of
                   Inl e \<Rightarrow> Inl e
                 | Inr output \<Rightarrow> Inr (PDict output))))"

text \<open>
  \<^verbatim>\<open>process_response\<close>; \<open>released\<close> as above. Both \<^verbatim>\<open>except\<close> clauses log and raise
  again, so every exception leaves the function as it was raised.
\<close>

definition process_response :: "pylib \<Rightarrow> bool \<Rightarrow> response \<Rightarrow> error + pyval" where
  "process_response lib released response =
     (if content_type response = ''application/json'' then
        (case response_body_text lib response of
           Inl e \<Rightarrow> Inl e
         | Inr response_text \<Rightarrow>
            (case json_loads lib response_text of
               None \<Rightarrow> Inl JSONDecodeError
             | Some v \<Rightarrow> Inr v))
      else if content_type response = ''application/zip'' then
        unpack_zip_response_async lib released response
      else Inl (ValueError (''Unsupported content type: '' @ content_type response)))"

section \<open>The orchestrator\<close>

record Result =
  response_text :: pyval
  "output" :: pyval
  status_code :: int

text \<open>
  The \<^verbatim>\<open>for\<close> loop of \<^verbatim>\<open>api_call_async\<close> over the file paths still to upload, with the
  \<open>asset_names\<close> collected so far. Each path is both the asset's name and its file.
\<close>

fun upload_assets ::
  "pylib \<Rightarrow> filesystem \<Rightarrow> server \<Rightarrow> nat \<Rightarrow> string \<Rightarrow> string \<Rightarrow> string list \<Rightarrow> pyval list \<Rightarrow>
   (error + pyval list) \<times> event list" where
  "upload_assets lib fs srv n token nvcf_url [] asset_names = (Inr asset_names, [])"
| "upload_assets lib fs srv n token nvcf_url (filepath # rest) asset_names =
     (case prepare_local_asset_async lib fs srv n token filepath filepath nvcf_url of
        (Inl e, evs) \<Rightarrow> (Inl e, evs)
      | (Inr asset, evs) \<Rightarrow>
         (case upload_assets lib fs srv (n + n_requests evs) token nvcf_url rest
                 (asset_names @ [asset]) of
            (res, evs') \<Rightarrow> (res, evs @ evs')))"

text \<open>
  \<^verbatim>\<open>api_call_async(token, params, filepaths, nvcf_url)\<close>, on a fresh session. The poll
  runs with the defaults of \<^verbatim>\<open>_poll_response_async\<close>: \<open>initial_delay = 0.001\<close>,
  \<open>max_attempts = 10\<close>, \<open>max_backoff = 32.0\<close>.

  The poll hands back the response of the submission itself, still inside its
  \<^verbatim>\<open>async with session.post(...)\<close> block, exactly when it issued no request (lemma
  \<open>poll_loop_returned\<close> below). Any other response it returns was received in an
  \<^verbatim>\<open>async with session.get(...)\<close> block of the loop, which released it on leaving; its body
  was read there and is kept.
\<close>

definition api_call_async ::
  "pylib \<Rightarrow> filesystem \<Rightarrow> server \<Rightarrow> string \<Rightarrow> (string \<times> pyval) list \<Rightarrow> string list \<Rightarrow> string \<Rightarrow>
   (error + Result) \<times> event list" where
  "api_call_async lib fs srv token params filepaths nvcf_url =
     (case upload_assets lib fs srv 0 token nvcf_url filepaths [] of
        (Inl e, evs) \<Rightarrow> (Inl e, evs)
      | (Inr asset_names, evs) \<Rightarrow>
         (let command = generate_command lib ''vis_control'' params
          in case format_request command token asset_names of
               Inl e \<Rightarrow> (Inl e, evs)
             | Inr (request, hdrs) \<Rightarrow>
                (let rq = \<lparr>http_method = POST, url = FUNCTION_URL, headers = hdrs,
                           payload = JsonPayload request\<rparr>
                 in case srv (n_requests evs) rq of
                      Inl ce \<Rightarrow> (Inl (ClientError ce), evs @ [Request rq (Inl ce)])
                    | Inr response0 \<Rightarrow>
                       (case poll_response_async lib srv (Suc (n_requests evs)) response0 token
                               nvcf_url 0.001 10 32 of
                          (Inl e, evs') \<Rightarrow> (Inl e, evs @ Request rq (Inr response0) # evs')
                        | (Inr response, evs') \<Rightarrow>
                           (if status response \<noteq> 200 then
                              (case response_body_text lib response of
                                 Inl e \<Rightarrow> Inl e
                               | Inr text \<Rightarrow>
                                  Inr \<lparr>response_text = PStr text, output = PNone,
                                       status_code = status response\<rparr>)
                            else
                              (case process_response lib (evs' \<noteq> []) response of
                                 Inr out \<Rightarrow>
                                  Inr \<lparr>response_text = out, output = out,
                                       status_code = status response\<rparr>
                               | Inl (ClientError ConnectionTimeoutError) \<Rightarrow>
                                  Inr \<lparr>response_text = PStr ''Connection Timeout'',
                                       output = PNone, status_code = status response\<rparr>
                               | Inl e \<Rightarrow> Inl e),
                            evs @ Request rq (Inr response0) # evs')))))"


section \<open>Observations on a run\<close>

text \<open>The number that a string of decimal digits writes.\<close>

definition decimal_value :: "string \<Rightarrow> nat" where
  "decimal_value ds = foldl (\<lambda>a c. 10 * a + (of_char c - 48)) 0 ds"

text \<open>The delays slept, in order, and the last HTTP response a run received.\<close>

fun sleeps_of :: "event list \<Rightarrow> real list" where
  "sleeps_of [] = []"
| "sleeps_of (Sleep d # evs) = d # sleeps_of evs"
| "sleeps_of (e # evs) = sleeps_of evs"

fun response_of :: "event \<Rightarrow> response option" where
  "response_of (Request q (Inr r)) = Some r"
| "response_of e = None"

fun last_response :: "event list \<Rightarrow> response option" where
  "last_response [] = None"
| "last_response (e # evs) =
     (case last_response evs of Some r \<Rightarrow> Some r | None \<Rightarrow> response_of e)"

text \<open>
  A poll that leaves the job pending: a response that was read in full and has status 202.
  Sleeps count as pending too.
\<close>

fun still_pending :: "event \<Rightarrow> bool" where
  "still_pending (Request q (Inr r)) = (status r = 202 \<and> (\<exists>b. body r = Inr b))"
| "still_pending (Request q (Inl ce)) = False"
| "still_pending (Sleep d) = True"
| "still_pending (Print s) = False"

text \<open>
  The shape of a polling trace that starts with the delay \<open>d\<close>: requests alternate with
  sleeps, and each sleep lasts the doubled, capped delay.
\<close>

fun backoff_trace :: "real \<Rightarrow> real \<Rightarrow> event list \<Rightarrow> bool" where
  "backoff_trace mb d [] = True"
| "backoff_trace mb d [e] = is_request e"
| "backoff_trace mb d (e # s # evs) =
     (is_request e \<and> s = Sleep (min (d * 2) mb) \<and> backoff_trace mb (min (d * 2) mb) evs)"

text \<open>
  The backoff as the specification words it, for comparison with the code: each pending
  re-check sleeps for the current delay and only then doubles it, capped at the maximum.
  \<open>spec_backoff_sleeps delay max_backoff m\<close> are the first \<open>m\<close> delays of that scheme.
\<close>

fun spec_backoff_sleeps :: "real \<Rightarrow> real \<Rightarrow> nat \<Rightarrow> real list" where
  "spec_backoff_sleeps delay max_backoff 0 = []"
| "spec_backoff_sleeps delay max_backoff (Suc m) =
     delay # spec_backoff_sleeps (min (delay * 2) max_backoff) max_backoff m"

section \<open>Example inputs\<close>

text \<open>
  A small world to run the functions in: a decoder that knows the three JSON texts
  below, bodies of ASCII text, one archive, one local file, and servers that answer by the
  position of the request in the session.
\<close>

definition example_loads :: "string \<Rightarrow> pyval option" where
  \<open>example_loads s =
     (if s = ''{"reqId": "job-1"}'' then Some (PDict [(''reqId'', PStr ''job-1'')])
      else if s = ''{"ok": true}'' then Some (PDict [(''ok'', PBool True)])
      else if s = ''{"uploadUrl": "https://s3/up", "assetId": "asset-1"}''
        then Some (PDict [(''uploadUrl'', PStr ''https://s3/up''), (''assetId'', PStr ''asset-1'')])
      else None)\<close>

fun example_str :: "pyval \<Rightarrow> string" where
  "example_str (PStr s) = s"
| "example_str v = ''None''"

definition example_archive :: "(string \<times> string) list" where
  \<open>example_archive =
     [(''a.json'', ''{"ok": true}''), (''image.png'', ''PNG-bytes''), (''video.mp4'', ''MP4-bytes'')]\<close>

definition example_lib :: pylib where
  "example_lib =
     \<lparr>json_loads = example_loads, py_str = example_str,
      decode_text = Some, is_json_type = (\<lambda>t. t = ''application/json''),
      is_zipfile = (\<lambda>c. c = ''PK-archive''),
      zip_entries = (\<lambda>c. if c = ''PK-archive'' then Some example_archive else None)\<rparr>"

definition pending_response :: response where
  \<open>pending_response =
     \<lparr>status = 202, content_type = ''application/json'', body = Inr ''{"reqId": "job-1"}''\<rparr>\<close>

definition done_response :: response where
  \<open>done_response =
     \<lparr>status = 200, content_type = ''application/json'', body = Inr ''{"ok": true}''\<rparr>\<close>

definition zip_response :: response where
  "zip_response =
     \<lparr>status = 200, content_type = ''application/zip'', body = Inr ''PK-archive''\<rparr>"

definition plain_response :: response where
  "plain_response = \<lparr>status = 200, content_type = ''text/plain'', body = Inr ''hello''\<rparr>"

definition created_response :: response where
  \<open>created_response =
     \<lparr>status = 200, content_type = ''application/json'',
      body = Inr ''{"uploadUrl": "https://s3/up", "assetId": "asset-1"}''\<rparr>\<close>

definition upload_failed_response :: response where
  "upload_failed_response =
     \<lparr>status = 500, content_type = ''text/plain'', body = Inr ''Internal Server Error''\<rparr>"

text \<open>The server that answers \<open>k\<close> requests with 202 and every later one with 200.\<close>

definition pending_then_done :: "nat \<Rightarrow> server" where
  "pending_then_done k n rq = (if n < k then Inr pending_response else Inr done_response)"

text \<open>The server that answers \<open>k\<close> requests with 202 and every later one with the archive.\<close>

definition pending_then_zip :: "nat \<Rightarrow> server" where
  "pending_then_zip k n rq = (if n < k then Inr pending_response else Inr zip_response)"

text \<open>
  The server that creates the asset (request 0), fails the upload with 500 (request 1),
  and would finish any job at once.
\<close>

definition upload_fails :: server where
  "upload_fails n rq =
     (if n = 0 then Inr created_response
      else if n = 1 then Inr upload_failed_response
      else Inr done_response)"

definition example_fs :: filesystem where
  "example_fs = [''frame.png'' \<mapsto> File ''PNG-bytes'']"

text \<open>The status request that polls job \<^verbatim>\<open>job-1\<close> at \<^verbatim>\<open>https://nvcf\<close> with token \<^verbatim>\<open>tok\<close>.\<close>

definition status_request :: request where
  "status_request =
     \<lparr>http_method = GET, url = ''https://nvcf/exec/status/job-1'',
      headers = [(''Authorization'', ''Bearer tok'')], payload = NoPayload\<rparr>"

text \<open>
  The two requests that upload \<^verbatim>\<open>frame.png\<close> at \<^verbatim>\<open>https://nvcf\<close> with token \<^verbatim>\<open>tok\<close>, and
  the three events of the upload that fails.
\<close>

definition create_request :: request where
  "create_request =
     \<lparr>http_method = POST, url = CHR 0x0A # ''https://nvcf/assets'',
      headers = [(''Content-Type'', ''application/json''), (''Authorization'', ''Bearer tok'')],
      payload = JsonPayload (PDict [(''contentType'', PStr ''binary/octet-stream''),
                                    (''description'', PStr ''frame.png'')])\<rparr>"

definition upload_request :: request where
  "upload_request =
     \<lparr>http_method = PUT, url = ''https://s3/up'',
      headers = [(''Content-Type'', ''binary/octet-stream''),
                 (''x-amz-meta-nvcf-asset-description'', ''frame.png'')],
      payload = DataPayload ''PNG-bytes''\<rparr>"

definition failed_upload_events :: "event list" where
  "failed_upload_events =
     [Request create_request (Inr created_response),
      Request upload_request (Inr upload_failed_response),
      Print ''Image upload failed with status code 500: Internal Server Error.'']"

text \<open>The server that answers every request with 500.\<close>

definition always_fails :: server where
  "always_fails n rq = Inr upload_failed_response"

text \<open>The submission of the command \<^verbatim>\<open>vis_control --seed=1\<close> without assets.\<close>

definition submit_request :: request where
  "submit_request =
     \<lparr>http_method = POST, url = FUNCTION_URL,
      headers = [(''Authorization'', ''Bearer tok''), (''Content-Type'', ''application/json''),
                 (''NVCF-POLL-SECONDS'', ''3600'')],
      payload = JsonPayload
        (PDict [(''inputs'',
                 PList [PDict [(''name'', PStr ''command''), (''shape'', PList [PInt 1]),
                               (''datatype'', PStr ''BYTES''),
                               (''data'', PList [PStr ''vis_control --seed=1''])]])])\<rparr>"

section \<open>Properties of the polling engine\<close>

declare poll_loop.simps [simp del]
declare str_nat.simps [simp del]

lemma n_requests_simps [simp]:
  "n_requests [] = 0"
  "n_requests (Request q out # evs) = Suc (n_requests evs)"
  "n_requests (Sleep d # evs) = n_requests evs"
  "n_requests (Print s # evs) = n_requests evs"
  "n_requests (xs @ ys) = n_requests xs + n_requests ys"
  by (simp_all add: n_requests_def)

lemma poll_loop_exit:
  assumes "\<not> (status response = 202 \<and> attempt < max_attempts)"
  shows "poll_loop lib srv token nvcf_url max_attempts max_backoff n response attempt delay
     = (Inr (response, attempt), [])"
  using assms by (subst poll_loop.simps) auto

text \<open>
  One pass through the loop, by the way it ends: the loop is not entered; no request
  identifier can be read; the request fails; the body cannot be read; the status is
  not 202 (\<^verbatim>\<open>break\<close>); the job is pending and attempts remain (sleep and go on); the job
  is pending and the budget is spent.
\<close>

lemma poll_loop_cases:
  assumes "poll_loop lib srv token nvcf_url max_attempts max_backoff n response attempt delay
             = (res, evs)"
  obtains
    (exit) "\<not> (status response = 202 \<and> attempt < max_attempts)"
        "res = Inr (response, attempt)" "evs = []"
  | (no_id) e where "status response = 202" "attempt < max_attempts"
        "response_json lib response = Inl e \<or>
         (\<exists>js. response_json lib response = Inr js \<and> py_getitem js ''reqId'' = Inl e)"
        "res = Inl e" "evs = []"
  | (net) rq ce where "status response = 202" "attempt < max_attempts"
        "res = Inl (ClientError ce)" "evs = [Request rq (Inl ce)]"
  | (unread) rq r' ce where "status response = 202" "attempt < max_attempts"
        "body r' = Inl ce" "res = Inl (ClientError ce)" "evs = [Request rq (Inr r')]"
  | (break) rq r' b where "status response = 202" "attempt < max_attempts"
        "body r' = Inr b" "status r' \<noteq> 202"
        "res = Inr (r', attempt)" "evs = [Request rq (Inr r')]"
  | (sleep) rq r' b evs' where "status response = 202" "attempt < max_attempts"
        "body r' = Inr b" "status r' = 202" "attempt + 1 < max_attempts"
        "poll_loop lib srv token nvcf_url max_attempts max_backoff (Suc n) r' (attempt + 1)
           (min (delay * 2) max_backoff) = (res, evs')"
        "evs = Request rq (Inr r') # Sleep (min (delay * 2) max_backoff) # evs'"
  | (spent) rq r' b where "status response = 202" "attempt < max_attempts"
        "body r' = Inr b" "status r' = 202" "\<not> attempt + 1 < max_attempts"
        "res = Inr (r', attempt + 1)" "evs = [Request rq (Inr r')]"
proof (cases "status response = 202 \<and> attempt < max_attempts")
  case False
  with assms exit show ?thesis by (simp add: poll_loop_exit)
next
  case True
  from assms True show ?thesis
    apply (subst (asm) poll_loop.simps)
    apply (simp split: sum.splits if_splits prod.splits add: Let_def poll_loop_exit)
          apply (auto intro: no_id net unread break sleep spent)
    done
qed

lemma poll_loop_count:
  "poll_loop lib srv token nvcf_url max_attempts max_backoff n response attempt delay = (res, evs)
   \<Longrightarrow> n_requests evs \<le> nat (max_attempts - attempt)"
proof (induction "nat (max_attempts - attempt)" arbitrary: n response attempt delay res evs)
  case 0
  from "0.prems" "0.hyps" show ?case by (cases rule: poll_loop_cases) auto
next
  case (Suc k)
  from Suc.prems show ?case
  proof (cases rule: poll_loop_cases)
    case (sleep rq r' b evs')
    have "n_requests evs' \<le> nat (max_attempts - (attempt + 1))"
      using Suc.hyps(2) by (intro Suc.hyps(1) [OF _ sleep(6)]) simp
    with sleep show ?thesis by simp
  qed auto
qed

lemma poll_loop_pending:
  "poll_loop lib srv token nvcf_url max_attempts max_backoff n response attempt delay = (res, evs)
   \<Longrightarrow> e \<in> set (butlast evs) \<Longrightarrow> still_pending e"
proof (induction "nat (max_attempts - attempt)" arbitrary: n response attempt delay res evs)
  case 0
  from "0.prems" "0.hyps" show ?case by (cases rule: poll_loop_cases) auto
next
  case (Suc k)
  from Suc.prems(1) show ?case
  proof (cases rule: poll_loop_cases)
    case (sleep rq r' b evs')
    have "e \<in> set (butlast evs') \<Longrightarrow> still_pending e"
      using Suc.hyps(2) by (intro Suc.hyps(1) [OF _ sleep(6)]) simp_all
    with sleep Suc.prems(2) show ?thesis by (auto split: if_splits)
  qed (use Suc.prems(2) in auto)
qed

lemma response_json_no_timeout: "response_json lib r \<noteq> Inl (TimeoutError m)"
  by (simp add: response_json_def split: sum.splits option.splits)

lemma py_getitem_no_timeout: "py_getitem v k \<noteq> Inl (TimeoutError m)"
  by (cases v) (simp_all split: option.splits)

lemma poll_loop_not_timeout:
  "poll_loop lib srv token nvcf_url max_attempts max_backoff n response attempt delay
     = (Inl e, evs) \<Longrightarrow> e \<noteq> TimeoutError m"
proof (induction "nat (max_attempts - attempt)" arbitrary: n response attempt delay evs)
  case 0
  from "0.prems" "0.hyps" show ?case by (cases rule: poll_loop_cases) auto
next
  case (Suc k)
  from Suc.prems show ?case
  proof (cases rule: poll_loop_cases)
    case (no_id e')
    then show ?thesis
      by (auto simp: response_json_no_timeout py_getitem_no_timeout)
  next
    case (sleep rq r' b evs')
    show ?thesis
      using Suc.hyps(2) by (intro Suc.hyps(1) [OF _ sleep(6)]) simp
  qed auto
qed

lemma poll_loop_break:
  "poll_loop lib srv token nvcf_url max_attempts max_backoff n response attempt delay = (res, evs)
   \<Longrightarrow> evs \<noteq> [] \<Longrightarrow> last evs = Request q (Inr rr) \<Longrightarrow> status rr \<noteq> 202 \<Longrightarrow>
   \<exists>a'. a' < max_attempts \<and>
     res = (case body rr of Inl ce \<Rightarrow> Inl (ClientError ce) | Inr b \<Rightarrow> Inr (rr, a'))"
proof (induction "nat (max_attempts - attempt)" arbitrary: n response attempt delay res evs)
  case 0
  from "0.prems" "0.hyps" show ?case by (cases rule: poll_loop_cases) auto
next
  case (Suc k)
  from Suc.prems(1) show ?case
  proof (cases rule: poll_loop_cases)
    case (sleep rq r' b evs')
    show ?thesis
    proof (cases "evs' = []")
      case True
      with sleep Suc.prems show ?thesis by simp
    next
      case False
      with sleep Suc.prems have "last evs' = Request q (Inr rr)" by simp
      with False Suc.prems(4) Suc.hyps(2) show ?thesis
        by (intro Suc.hyps(1) [OF _ sleep(6)]) simp_all
    qed
  qed (use Suc.prems in auto)
qed

lemma poll_loop_returned:
  "poll_loop lib srv token nvcf_url max_attempts max_backoff n response attempt delay
     = (Inr (r', a'), evs) \<Longrightarrow>
   (evs = [] \<and> r' = response) \<or> (evs \<noteq> [] \<and> (\<exists>q. last evs = Request q (Inr r')))"
proof (induction "nat (max_attempts - attempt)" arbitrary: n response attempt delay evs)
  case 0
  from "0.prems" "0.hyps" show ?case by (cases rule: poll_loop_cases) auto
next
  case (Suc k)
  from Suc.prems(1) show ?case
  proof (cases rule: poll_loop_cases)
    case (sleep rq r'' b evs')
    have "(evs' = [] \<and> r' = r'') \<or> (evs' \<noteq> [] \<and> (\<exists>q. last evs' = Request q (Inr r')))"
      using Suc.hyps(2) by (intro Suc.hyps(1) [OF _ sleep(6)]) simp
    moreover have "evs' \<noteq> []"
    proof
      assume "evs' = []"
      with sleep(6) show False
        by (cases rule: poll_loop_cases) (use sleep in auto)
    qed
    ultimately show ?thesis using sleep by simp
  qed auto
qed

lemma poll_loop_exhausted:
  "poll_loop lib srv token nvcf_url max_attempts max_backoff n response attempt delay = (res, evs)
   \<Longrightarrow> status response = 202 \<Longrightarrow> n_requests evs = nat (max_attempts - attempt) \<Longrightarrow>
   (\<And>q out. Request q out \<in> set evs \<Longrightarrow> \<exists>r b. out = Inr r \<and> status r = 202 \<and> body r = Inr b)
   \<Longrightarrow>
   (\<exists>r' a'. res = Inr (r', a') \<and> max_attempts \<le> a') \<and> (evs = [] \<or> is_request (last evs))"
proof (induction "nat (max_attempts - attempt)" arbitrary: n response attempt delay res evs)
  case 0
  from "0.prems"(1) "0.prems"(2,3) "0.hyps" show ?case
    by (cases rule: poll_loop_cases) auto
next
  case (Suc k)
  from Suc.prems(1) show ?case
  proof (cases rule: poll_loop_cases)
    case (sleep rq r' b evs')
    have "(\<exists>r'' a'. res = Inr (r'', a') \<and> max_attempts \<le> a')
          \<and> (evs' = [] \<or> is_request (last evs'))"
    proof (rule Suc.hyps(1) [OF _ sleep(6)])
      show "k = nat (max_attempts - (attempt + 1))" using Suc.hyps(2) by simp
      show "status r' = 202" by (rule sleep)
      show "n_requests evs' = nat (max_attempts - (attempt + 1))"
        using Suc.prems(3) sleep Suc.hyps(2) by simp
      show "\<exists>r b. out = Inr r \<and> status r = 202 \<and> body r = Inr b"
        if "Request q out \<in> set evs'" for q out
        using that Suc.prems(4) [of q out] sleep by simp
    qed
    moreover have "evs' \<noteq> []"
      using Suc.prems(3) sleep by auto
    ultimately show ?thesis using sleep by simp
  next
    case (net rq ce)
    with Suc.prems(4) [of rq "Inl ce"] show ?thesis by simp
  next
    case (unread rq r' ce)
    with Suc.prems(4) [of rq "Inr r'"] show ?thesis by simp
  next
    case (break rq r' b)
    with Suc.prems(4) [of rq "Inr r'"] show ?thesis by simp
  qed (use Suc.prems(2,3) Suc.hyps(2) in \<open>auto split: if_splits\<close>)
qed

lemma poll_loop_backoff:
  "poll_loop lib srv token nvcf_url max_attempts max_backoff n response attempt delay = (res, evs)
   \<Longrightarrow> backoff_trace max_backoff delay evs"
proof (induction "nat (max_attempts - attempt)" arbitrary: n response attempt delay res evs)
  case 0
  from "0.prems" "0.hyps" show ?case by (cases rule: poll_loop_cases) auto
next
  case (Suc k)
  from Suc.prems(1) show ?case
  proof (cases rule: poll_loop_cases)
    case (sleep rq r' b evs')
    have "backoff_trace max_backoff (min (delay * 2) max_backoff) evs'"
      using Suc.hyps(2) by (intro Suc.hyps(1) [OF _ sleep(6)]) simp
    with sleep show ?thesis by simp
  qed auto
qed

lemma backoff_trace_sleep:
  "backoff_trace mb d evs \<Longrightarrow> evs = pre @ Sleep x # Request q out # post \<Longrightarrow>
   1 \<le> n_requests pre \<and> x = ((\<lambda>d. min (d * 2) mb) ^^ n_requests pre) d"
proof (induction mb d evs arbitrary: pre rule: backoff_trace.induct)
  case (1 mb d)
  then show ?case by simp
next
  case (2 mb d e)
  then show ?case by (cases pre) auto
next
  case (3 mb d e s evs)
  show ?case
  proof (cases pre)
    case Nil
    with "3.prems" show ?thesis by auto
  next
    case (Cons a pre1)
    note pre = Cons
    show ?thesis
    proof (cases pre1)
      case Nil
      with pre "3.prems" show ?thesis by (cases a) auto
    next
      case (Cons s' pre2)
      with pre "3.prems" have ev: "evs = pre2 @ Sleep x # Request q out # post"
        and a: "a = e" "is_request e" and s': "s' = Sleep (min (d * 2) mb)"
        and bt: "backoff_trace mb (min (d * 2) mb) evs"
        by auto
      from "3.IH" [OF bt ev]
      have "1 \<le> n_requests pre2"
        "x = ((\<lambda>d. min (d * 2) mb) ^^ n_requests pre2) (min (d * 2) mb)"
        by auto
      moreover have "n_requests pre = Suc (n_requests pre2)"
        using pre Cons a s' by (cases e) auto
      ultimately show ?thesis by (simp add: funpow_Suc_right del: funpow.simps)
    qed
  qed
qed

lemma capped_doubling:
  fixes d mb :: real
  assumes "0 \<le> mb" "1 \<le> n"
  shows "((\<lambda>d. min (d * 2) mb) ^^ n) d = min (d * 2 ^ n) mb"
  using assms(2)
proof (induction n rule: dec_induct)
  case base
  show ?case by simp
next
  case (step m)
  then show ?case using assms(1) by (simp add: min_def algebra_simps)
qed

text \<open>The example runs: two pending polls and a finished one; three pending polls.\<close>

lemmas example_defs =
  poll_response_async_def response_json_def response_body_text_def py_strip_def is_space_def
  example_lib_def example_loads_def
  pending_response_def done_response_def pending_then_done_def status_request_def

lemma example_run_done:
  "poll_response_async example_lib (pending_then_done 2) 0 pending_response ''tok''
     ''https://nvcf'' 1 3 32
   = (Inr done_response,
      [Request status_request (Inr pending_response), Sleep 2,
       Request status_request (Inr pending_response), Sleep 4,
       Request status_request (Inr done_response)])"
  by (simp add: example_defs poll_loop.simps)

lemma example_run_timeout:
  "poll_response_async example_lib (pending_then_done 5) 0 pending_response ''tok''
     ''https://nvcf'' 1 3 32
   = (Inl (TimeoutError ''Maximum polling attempts reached''),
      [Request status_request (Inr pending_response), Sleep 2,
       Request status_request (Inr pending_response), Sleep 4,
       Request status_request (Inr pending_response)])"
  by (simp add: example_defs poll_loop.simps)

text \<open>
  C1. For every initial response and every configuration, \<^verbatim>\<open>_poll_response_async\<close>
  issues at most \<open>max_attempts\<close> poll requests (none when \<open>max_attempts\<close> is not positive);
  and a poll response whose status is not 202 ends the run: it is the last event of the
  trace, no request and no sleep follows it, and it is the response returned (unless
  reading its body failed, which raises that transport error).
\<close>

theorem C1_poll_budget_and_exit:
  assumes "poll_response_async lib srv n response token nvcf_url initial_delay max_attempts
             max_backoff = (res, evs)"
  shows "n_requests evs \<le> nat max_attempts \<and>
         (\<forall>pre q rr post.
            evs = pre @ Request q (Inr rr) # post \<and> status rr \<noteq> 202 \<longrightarrow>
            post = [] \<and>
            res = (case body rr of Inl ce \<Rightarrow> Inl (ClientError ce) | Inr b \<Rightarrow> Inr rr))"
proof -
  obtain lres where loop:
    "poll_loop lib srv token nvcf_url max_attempts max_backoff n response 0 initial_delay
       = (lres, evs)"
    and res: "res = (case lres of Inl e \<Rightarrow> Inl e
                     | Inr (r', a') \<Rightarrow>
                         if a' \<ge> max_attempts
                         then Inl (TimeoutError ''Maximum polling attempts reached'')
                         else Inr r')"
    using assms
    by (auto simp: poll_response_async_def split: prod.splits sum.splits if_splits)
  have "n_requests evs \<le> nat max_attempts"
    using poll_loop_count [OF loop] by simp
  moreover have "post = [] \<and>
      res = (case body rr of Inl ce \<Rightarrow> Inl (ClientError ce) | Inr b \<Rightarrow> Inr rr)"
    if ev: "evs = pre @ Request q (Inr rr) # post" and st: "status rr \<noteq> 202"
    for pre q rr post
  proof -
    have post: "post = []"
    proof (rule ccontr)
      assume "post \<noteq> []"
      then have "Request q (Inr rr) \<in> set (butlast evs)"
        using ev by (simp add: butlast_append)
      from poll_loop_pending [OF loop this] st show False by simp
    qed
    then have "evs \<noteq> []" "last evs = Request q (Inr rr)" using ev by simp_all
    from poll_loop_break [OF loop this st] obtain a' where
      "a' < max_attempts"
      "lres = (case body rr of Inl ce \<Rightarrow> Inl (ClientError ce) | Inr b \<Rightarrow> Inr (rr, a'))"
      by blast
    with res post show ?thesis by (simp split: sum.splits)
  qed
  ultimately show ?thesis by blast
qed

theorem C1_poll_budget_and_exit_witness:
  "n_requests (snd (poll_response_async example_lib (pending_then_done 2) 0 pending_response
                      ''tok'' ''https://nvcf'' 1 3 32)) \<le> nat 3 \<and>
   snd (poll_response_async example_lib (pending_then_done 2) 0 pending_response
          ''tok'' ''https://nvcf'' 1 3 32)
     = [Request status_request (Inr pending_response), Sleep 2,
        Request status_request (Inr pending_response), Sleep 4]
       @ Request status_request (Inr done_response) # [] \<and>
   status done_response \<noteq> 202 \<and>
   fst (poll_response_async example_lib (pending_then_done 2) 0 pending_response
          ''tok'' ''https://nvcf'' 1 3 32) = Inr done_response"
  using C1_poll_budget_and_exit [OF example_run_done]
  unfolding example_run_done
  by (simp add: done_response_def)

text \<open>
  C2 (as amended). If the initial response and all \<open>max_attempts\<close> poll responses were
  received with status 202, \<^verbatim>\<open>_poll_response_async\<close> raises \<^verbatim>\<open>TimeoutError\<close> with the message
  \<^verbatim>\<open>Maximum polling attempts reached\<close>, and the trace ends with the last of these polls:
  nothing is requested or slept after it. It does not raise \<^verbatim>\<open>TimeoutError\<close> when a poll
  response with another status was received, nor when the initial response has another
  status and \<open>max_attempts\<close> is positive.
\<close>

theorem C2_timeout_when_budget_exhausted:
  assumes "poll_response_async lib srv n response token nvcf_url initial_delay max_attempts
             max_backoff = (res, evs)"
  shows "(status response = 202 \<and> n_requests evs = nat max_attempts \<and>
          (\<forall>q out. Request q out \<in> set evs \<longrightarrow>
                   (\<exists>r b. out = Inr r \<and> status r = 202 \<and> body r = Inr b))
          \<longrightarrow> res = Inl (TimeoutError ''Maximum polling attempts reached'') \<and>
              (evs = [] \<or> is_request (last evs)))
       \<and> ((status response \<noteq> 202 \<and> 0 < max_attempts) \<or>
           (\<exists>q r. Request q (Inr r) \<in> set evs \<and> status r \<noteq> 202)
          \<longrightarrow> (\<forall>m. res \<noteq> Inl (TimeoutError m)))"
proof -
  obtain lres where loop:
    "poll_loop lib srv token nvcf_url max_attempts max_backoff n response 0 initial_delay
       = (lres, evs)"
    and res: "res = (case lres of Inl e \<Rightarrow> Inl e
                     | Inr (r', a') \<Rightarrow>
                         if a' \<ge> max_attempts
                         then Inl (TimeoutError ''Maximum polling attempts reached'')
                         else Inr r')"
    using assms
    by (auto simp: poll_response_async_def split: prod.splits sum.splits if_splits)
  have exhausted: "res = Inl (TimeoutError ''Maximum polling attempts reached'') \<and>
      (evs = [] \<or> is_request (last evs))"
    if "status response = 202" "n_requests evs = nat max_attempts"
       "\<forall>q out. Request q out \<in> set evs \<longrightarrow>
          (\<exists>r b. out = Inr r \<and> status r = 202 \<and> body r = Inr b)"
  proof -
    have "(\<exists>r' a'. lres = Inr (r', a') \<and> max_attempts \<le> a')
          \<and> (evs = [] \<or> is_request (last evs))"
      using that by (intro poll_loop_exhausted [OF loop]) auto
    with res show ?thesis by auto
  qed
  have initial: "res \<noteq> Inl (TimeoutError m)"
    if "status response \<noteq> 202" "0 < max_attempts" for m
    using loop res that by (auto simp: poll_loop_exit)
  have polled: "res \<noteq> Inl (TimeoutError m)"
    if mem: "Request q (Inr r) \<in> set evs" and st: "status r \<noteq> 202" for q r m
  proof -
    have "Request q (Inr r) \<notin> set (butlast evs)"
      using poll_loop_pending [OF loop] st by fastforce
    moreover from mem have "evs \<noteq> []" by auto
    ultimately have "last evs = Request q (Inr r)"
      using mem by (metis append_butlast_last_id set_ConsD rotate1.simps(2) set_rotate1)
    from poll_loop_break [OF loop \<open>evs \<noteq> []\<close> this st] res show ?thesis
      by (cases "body r") auto
  qed
  from exhausted initial polled show ?thesis by blast
qed

theorem C2_timeout_when_budget_exhausted_witness:
  "(status pending_response = 202 \<and>
    n_requests (snd (poll_response_async example_lib (pending_then_done 5) 0 pending_response
                       ''tok'' ''https://nvcf'' 1 3 32)) = nat 3 \<and>
    fst (poll_response_async example_lib (pending_then_done 5) 0 pending_response
           ''tok'' ''https://nvcf'' 1 3 32)
      = Inl (TimeoutError ''Maximum polling attempts reached'')) \<and>
   (Request status_request (Inr done_response)
      \<in> set (snd (poll_response_async example_lib (pending_then_done 2) 0 pending_response
                    ''tok'' ''https://nvcf'' 1 3 32)) \<and>
    status done_response \<noteq> 202 \<and>
    fst (poll_response_async example_lib (pending_then_done 2) 0 pending_response
           ''tok'' ''https://nvcf'' 1 3 32)
      \<noteq> Inl (TimeoutError ''Maximum polling attempts reached''))"
  using C2_timeout_when_budget_exhausted [OF example_run_timeout]
    C2_timeout_when_budget_exhausted [OF example_run_done]
  unfolding example_run_timeout example_run_done
  by (simp add: pending_response_def done_response_def)

text \<open>
  The claim as stated fails twice. After three pending polls with \<open>max_attempts = 3\<close> the
  message raised is not \<^verbatim>\<open>maximum polling attempts reached\<close>: the source writes it with a
  capital M. And with \<open>max_attempts = 0\<close> the error is raised although the only response
  observed, the initial one, has status 200.
\<close>

theorem C2_message_and_zero_budget_counterexample:
  "fst (poll_response_async example_lib (pending_then_done 5) 0 pending_response
          ''tok'' ''https://nvcf'' 1 3 32)
     = Inl (TimeoutError ''Maximum polling attempts reached'') \<and>
   fst (poll_response_async example_lib (pending_then_done 5) 0 pending_response
          ''tok'' ''https://nvcf'' 1 3 32)
     \<noteq> Inl (TimeoutError ''maximum polling attempts reached'') \<and>
   status done_response \<noteq> 202 \<and>
   fst (poll_response_async example_lib (pending_then_done 0) 0 done_response
          ''tok'' ''https://nvcf'' 1 0 32)
     = Inl (TimeoutError ''Maximum polling attempts reached'')"
  unfolding example_run_timeout
  by (simp add: poll_response_async_def poll_loop_exit done_response_def)

text \<open>
  C10. With \<open>max_attempts = 0\<close>, \<^verbatim>\<open>_poll_response_async\<close> raises \<^verbatim>\<open>TimeoutError\<close> for every
  initial response, also one that is not pending, and without a single request: the loop
  is not entered and the final check finds \<open>attempt = 0 \<ge> max_attempts\<close>.
\<close>

theorem C10_zero_budget_always_times_out:
  "poll_response_async lib srv n response token nvcf_url initial_delay 0 max_backoff
     = (Inl (TimeoutError ''Maximum polling attempts reached''), [])"
  by (simp add: poll_response_async_def poll_loop_exit)


text \<open>
  What the code does about the delays: a sleep precedes poll \<open>k\<close> only for \<open>k \<ge> 2\<close>, and for
  \<open>max_backoff \<ge> 0\<close> it lasts \<open>min (initial_delay \<cdot> 2^(k-1)) max_backoff\<close>.
\<close>

lemma delay_before_poll:
  assumes "poll_response_async lib srv n response token nvcf_url initial_delay max_attempts
             max_backoff = (res, evs)"
    and "0 \<le> max_backoff"
    and "evs = pre @ Sleep x # Request q out # post"
    and "k = Suc (n_requests pre)"
  shows "2 \<le> k \<and> x = min (initial_delay * 2 ^ (k - 1)) max_backoff"
proof -
  obtain lres where loop:
    "poll_loop lib srv token nvcf_url max_attempts max_backoff n response 0 initial_delay
       = (lres, evs)"
    using assms(1)
    by (auto simp: poll_response_async_def split: prod.splits sum.splits if_splits)
  from backoff_trace_sleep [OF poll_loop_backoff [OF loop] assms(3)]
  have pre: "1 \<le> n_requests pre"
    and x: "x = ((\<lambda>d. min (d * 2) max_backoff) ^^ n_requests pre) initial_delay"
    by auto
  from x capped_doubling [OF assms(2) pre] assms(4) pre show ?thesis by simp
qed

text \<open>
  C3. The claim says that the engine sleeps for the current delay and only then doubles
  it, so that the first sleep lasts \<open>initial_delay\<close>, which is also what the docstring
  says of \<open>initial_delay\<close> (\<^verbatim>\<open>Initial delay between retries\<close>). The code doubles first: with
  \<open>initial_delay = 1\<close>, \<open>max_backoff = 32\<close>, \<open>max_attempts = 3\<close> and three pending polls it
  sleeps 2 and then 4, where sleeping before doubling gives 1 and then 2.
\<close>

theorem C3_sleeps_are_doubled_first:
  "sleeps_of (snd (poll_response_async example_lib (pending_then_done 5) 0 pending_response
                     ''tok'' ''https://nvcf'' 1 3 32)) = [2, 4] \<and>
   spec_backoff_sleeps 1 32 2 = [1, 2]"
  unfolding example_run_timeout
  by (simp add: numeral_2_eq_2)

section \<open>Properties of the request builder, the uploader and the decoder\<close>

lemma strs_of_strings: "strs_of (map PStr ids) = Some ids"
  by (induction ids) simp_all

lemma strs_of_none: "PNone \<in> set xs \<Longrightarrow> strs_of xs = None"
  by (induction xs rule: strs_of.induct) auto

text \<open>A \<^verbatim>\<open>None\<close> among the asset names makes the request builder raise.\<close>

lemma format_request_none:
  assumes "PNone \<in> set asset_names"
  shows "format_request command token asset_names = Inl TypeError"
proof -
  from assms have "asset_names \<noteq> []" and "strs_of asset_names = None"
    by (auto simp: strs_of_none)
  then show ?thesis by (simp add: format_request_def py_join_def Let_def)
qed

text \<open>\<open>str_nat\<close> writes a number in decimal digits.\<close>

lemma digit_char:
  assumes "d < 10"
  shows "of_char (''0123456789'' ! d) = 48 + d" and "''0123456789'' ! d \<in> set ''0123456789''"
proof -
  from assms have "d = 0 \<or> d = 1 \<or> d = 2 \<or> d = 3 \<or> d = 4 \<or> d = 5 \<or> d = 6 \<or> d = 7 \<or> d = 8 \<or> d = 9"
    by arith
  then show "of_char (''0123456789'' ! d) = 48 + d"
    and "''0123456789'' ! d \<in> set ''0123456789''"
    by (elim disjE; simp)+
qed

lemma str_nat_decimal:
  "decimal_value (str_nat n) = n \<and> str_nat n \<noteq> [] \<and> set (str_nat n) \<subseteq> set ''0123456789''"
proof (induction n rule: str_nat.induct)
  case (1 n)
  show ?case
  proof (cases "n < 10")
    case True
    then show ?thesis
      using digit_char [OF True]
      by (subst (1 2 3) str_nat.simps) (simp add: decimal_value_def)
  next
    case False
    have d: "n mod 10 < 10" by simp
    from False "1.IH" have ih: "decimal_value (str_nat (n div 10)) = n div 10"
      "set (str_nat (n div 10)) \<subseteq> set ''0123456789''"
      by simp_all
    have "str_nat n = str_nat (n div 10) @ [''0123456789'' ! (n mod 10)]"
      using False by (subst str_nat.simps) simp
    with ih digit_char [OF d] show ?thesis
      by (simp add: decimal_value_def)
  qed
qed

text \<open>
  C9. For every command, token and list of asset identifiers, \<^verbatim>\<open>_format_request\<close>
  returns headers that hold the bearer authorization, the JSON content type and the
  poll-timeout hint, and hold the comma-joined asset references exactly when the list is
  not empty. The body has one input for the command text and then, in order, one input
  per asset identifier: its name is \<^verbatim>\<open>image_assetId_\<close> followed by the decimal digits of
  its position, counted from 0, and its data is the identifier.
\<close>

theorem C9_format_request:
  "\<exists>inputs hdrs.
     format_request command token (map PStr ids) = Inr (PDict [(''inputs'', PList inputs)], hdrs) \<and>
     map_of hdrs ''Authorization'' = Some (''Bearer '' @ token) \<and>
     map_of hdrs ''Content-Type'' = Some ''application/json'' \<and>
     map_of hdrs ''NVCF-POLL-SECONDS'' = Some ''3600'' \<and>
     map_of hdrs ''NVCF-INPUT-ASSET-REFERENCES''
       = (if ids = [] then None else Some (str_join '','' ids)) \<and>
     length inputs = Suc (length ids) \<and>
     inputs ! 0 = PDict [(''name'', PStr ''command''), (''shape'', PList [PInt 1]),
                         (''datatype'', PStr ''BYTES''), (''data'', PList [PStr command])] \<and>
     (\<forall>i < length ids.
        (\<exists>digits.
           inputs ! Suc i = PDict [(''name'', PStr (''image_assetId_'' @ digits)),
                                   (''shape'', PList [PInt 1]),
                                   (''datatype'', PStr ''BYTES''),
                                   (''data'', PList [PStr (ids ! i)])] \<and>
           digits \<noteq> [] \<and> set digits \<subseteq> set ''0123456789'' \<and> decimal_value digits = i))"
proof (cases "ids = []")
  case True
  then show ?thesis by (simp add: format_request_def)
next
  case False
  have "\<exists>digits.
      PDict [(''name'', PStr (''image_assetId_'' @ str_nat i)), (''shape'', PList [PInt 1]),
             (''datatype'', PStr ''BYTES''), (''data'', PList [PStr (ids ! i)])]
        = PDict [(''name'', PStr (''image_assetId_'' @ digits)), (''shape'', PList [PInt 1]),
                 (''datatype'', PStr ''BYTES''), (''data'', PList [PStr (ids ! i)])] \<and>
      digits \<noteq> [] \<and> set digits \<subseteq> set ''0123456789'' \<and> decimal_value digits = i" for i
    using str_nat_decimal [of i] by blast
  with False show ?thesis
    by (simp add: format_request_def py_join_def strs_of_strings nth_enumerate_eq)
qed

theorem C9_format_request_witness:
  "(1::nat) < length [''a1'', ''a2''] \<and>
   (\<exists>inputs hdrs.
      format_request ''cmd'' ''tok'' (map PStr [''a1'', ''a2''])
        = Inr (PDict [(''inputs'', PList inputs)], hdrs) \<and>
      map_of hdrs ''NVCF-INPUT-ASSET-REFERENCES'' = Some ''a1,a2'' \<and>
      length inputs = 3 \<and>
      (\<exists>digits.
         inputs ! Suc 1 = PDict [(''name'', PStr (''image_assetId_'' @ digits)),
                                 (''shape'', PList [PInt 1]),
                                 (''datatype'', PStr ''BYTES''),
                                 (''data'', PList [PStr ''a2''])] \<and>
         decimal_value digits = 1))"
proof -
  from C9_format_request [of "''cmd''" "''tok''" "[''a1'', ''a2'']"]
  obtain inputs hdrs where
    eq: "format_request ''cmd'' ''tok'' (map PStr [''a1'', ''a2''])
           = Inr (PDict [(''inputs'', PList inputs)], hdrs)"
    and refs: "map_of hdrs ''NVCF-INPUT-ASSET-REFERENCES''
           = (if [''a1'', ''a2''] = [] then None else Some (str_join '','' [''a1'', ''a2'']))"
    and len: "length inputs = Suc (length [''a1'', ''a2''])"
    and nth: "\<forall>i < length [''a1'', ''a2''].
        (\<exists>digits.
           inputs ! Suc i = PDict [(''name'', PStr (''image_assetId_'' @ digits)),
                                   (''shape'', PList [PInt 1]),
                                   (''datatype'', PStr ''BYTES''),
                                   (''data'', PList [PStr ([''a1'', ''a2''] ! i)])] \<and>
           digits \<noteq> [] \<and> set digits \<subseteq> set ''0123456789'' \<and> decimal_value digits = i)"
    by blast
  from nth have "\<exists>digits.
      inputs ! Suc 1 = PDict [(''name'', PStr (''image_assetId_'' @ digits)),
                              (''shape'', PList [PInt 1]),
                              (''datatype'', PStr ''BYTES''),
                              (''data'', PList [PStr ''a2''])] \<and>
      decimal_value digits = 1"
    by (auto dest!: spec [of _ 1])
  with eq refs len show ?thesis by auto
qed

lemma example_format_request:
  "format_request ''cmd'' ''tok'' [PStr ''a1'', PStr ''a2'']
     = Inr (PDict [(''inputs'',
                    PList [PDict [(''name'', PStr ''command''), (''shape'', PList [PInt 1]),
                                  (''datatype'', PStr ''BYTES''), (''data'', PList [PStr ''cmd''])],
                           PDict [(''name'', PStr ''image_assetId_0''), (''shape'', PList [PInt 1]),
                                  (''datatype'', PStr ''BYTES''), (''data'', PList [PStr ''a1''])],
                           PDict [(''name'', PStr ''image_assetId_1''), (''shape'', PList [PInt 1]),
                                  (''datatype'', PStr ''BYTES''), (''data'', PList [PStr ''a2''])]])],
            [(''Authorization'', ''Bearer tok''), (''Content-Type'', ''application/json''),
             (''NVCF-POLL-SECONDS'', ''3600''), (''NVCF-INPUT-ASSET-REFERENCES'', ''a1,a2'')])"
  by (simp add: format_request_def py_join_def enumerate_eq_zip str_nat.simps upt_rec)

text \<open>
  C7. A response whose declared content type is neither \<^verbatim>\<open>application/json\<close> nor
  \<^verbatim>\<open>application/zip\<close> makes \<^verbatim>\<open>process_response\<close> raise the unsupported-format error (a
  \<^verbatim>\<open>ValueError\<close> naming the content type), whatever its status and body, released or not.
\<close>

theorem C7_unsupported_content_type:
  assumes "content_type response \<noteq> ''application/json''"
    and "content_type response \<noteq> ''application/zip''"
  shows "process_response lib released response
           = Inl (ValueError (''Unsupported content type: '' @ content_type response))"
  using assms by (simp add: process_response_def)

theorem C7_unsupported_content_type_witness:
  "content_type plain_response \<noteq> ''application/json'' \<and>
   content_type plain_response \<noteq> ''application/zip'' \<and>
   process_response example_lib False plain_response
     = Inl (ValueError ''Unsupported content type: text/plain'')"
proof -
  have a: "content_type plain_response \<noteq> ''application/json''"
    and b: "content_type plain_response \<noteq> ''application/zip''"
    by (simp_all add: plain_response_def)
  from C7_unsupported_content_type [OF a b, of example_lib False] a b show ?thesis
    by (simp add: plain_response_def)
qed

text \<open>
  C8. For a path that does not exist, \<^verbatim>\<open>_prepare_local_asset_async\<close> raises
  \<^verbatim>\<open>FileNotFoundError\<close> at once: its trace is empty, so neither the creation request nor
  the upload was issued.
\<close>

theorem C8_missing_file_fails_before_network:
  assumes "fs filepath = None"
  shows "prepare_local_asset_async lib fs srv n token asset_name filepath nvcf_url
           = (Inl (FileNotFoundError (filepath @ '' not found'')), [])"
  using assms by (simp add: prepare_local_asset_async_def)

theorem C8_missing_file_fails_before_network_witness:
  "example_fs ''missing.png'' = None \<and>
   prepare_local_asset_async example_lib example_fs upload_fails 0 ''tok'' ''missing.png''
       ''missing.png'' ''https://nvcf''
     = (Inl (FileNotFoundError ''missing.png not found''), [])"
proof -
  have a: "example_fs ''missing.png'' = None" by (simp add: example_fs_def)
  from C8_missing_file_fails_before_network [where fs = example_fs and filepath = "''missing.png''", OF a]
    a show ?thesis by simp
qed

text \<open>
  C4. The uploader does what the claim says: when the upload answers 500 it raises
  nothing and returns \<^verbatim>\<open>None\<close> instead of an identifier. The orchestrator then puts that
  \<^verbatim>\<open>None\<close> into \<open>asset_names\<close>, and \<^verbatim>\<open>",".join(asset_names)\<close> in \<^verbatim>\<open>_format_request\<close> raises
  \<^verbatim>\<open>TypeError\<close>: the call ends with that exception after the two upload requests, and the
  job is never submitted.
\<close>

theorem C4_failed_upload_aborts_call:
  "prepare_local_asset_async example_lib example_fs upload_fails 0 ''tok'' ''frame.png''
       ''frame.png'' ''https://nvcf''
     = (Inr PNone, failed_upload_events) \<and>
   api_call_async example_lib example_fs upload_fails ''tok'' [(''seed'', PStr ''1'')]
       [''frame.png''] ''https://nvcf''
     = (Inl TypeError, failed_upload_events)"
proof -
  have prep: "prepare_local_asset_async example_lib example_fs upload_fails 0 ''tok''
       ''frame.png'' ''frame.png'' ''https://nvcf'' = (Inr PNone, failed_upload_events)"
    by (simp add: prepare_local_asset_async_def create_asset_async_def upload_asset_async_def
        response_json_def response_body_text_def py_strip_def is_space_def
        example_lib_def example_loads_def example_fs_def upload_fails_def
        created_response_def upload_failed_response_def failed_upload_events_def
        create_request_def upload_request_def str_int_def str_nat.simps)
  have "format_request c ''tok'' [PNone] = Inl TypeError" for c
    by (simp add: format_request_def py_join_def)
  with prep show ?thesis
    by (simp add: api_call_async_def)
qed


lemma three_entries:
  assumes "length xs = 3" and "set xs = {a, b, c}" and "a \<noteq> b" "a \<noteq> c" "b \<noteq> c"
  shows "xs = [a, b, c] \<or> xs = [a, c, b] \<or> xs = [b, a, c] \<or> xs = [b, c, a]
         \<or> xs = [c, a, b] \<or> xs = [c, b, a]"
proof -
  from assms(1) obtain x y z where xs: "xs = [x, y, z]"
    by (auto simp: length_Suc_conv numeral_3_eq_3)
  have "x \<in> set xs" "y \<in> set xs" "z \<in> set xs" by (simp_all add: xs)
  then have 1: "x = a \<or> x = b \<or> x = c" "y = a \<or> y = b \<or> y = c" "z = a \<or> z = b \<or> z = c"
    by (simp_all only: assms(2) insert_iff empty_iff simp_thms)
  have "a \<in> set xs" "b \<in> set xs" "c \<in> set xs" by (simp_all add: assms(2))
  then have 2: "a = x \<or> a = y \<or> a = z" "b = x \<or> b = y \<or> b = z" "c = x \<or> c = y \<or> c = z"
    by (simp_all add: xs)
  from 1 2 assms(3-5) show ?thesis
    unfolding xs by blast
qed

text \<open>
  C6. Let \<^verbatim>\<open>read()\<close> give the body of a response, a well-formed zip archive with exactly the entries
  \<^verbatim>\<open>a.json\<close>, \<^verbatim>\<open>image.png\<close> and \<^verbatim>\<open>video.mp4\<close>, in any order, the first holding a JSON text.
  Then \<^verbatim>\<open>_unpack_zip_response_async\<close> returns a dict with exactly the keys \<^verbatim>\<open>a\<close>, \<^verbatim>\<open>image\<close>
  and \<^verbatim>\<open>video\<close>: the value at \<^verbatim>\<open>a\<close> is the parsed JSON structure, the values at \<^verbatim>\<open>image\<close>
  and \<^verbatim>\<open>video\<close> are the bytes of the \<^verbatim>\<open>.png\<close> and the \<^verbatim>\<open>.mp4\<close> entry.
\<close>

theorem C6_zip_round_trip:
  assumes "response_read released response = Inr content"
    and "is_zipfile lib content"
    and "zip_entries lib content = Some archive"
    and "length archive = 3"
    and "set archive = {(''a.json'', a_bytes), (''image.png'', png), (''video.mp4'', mp4)}"
    and "json_loads lib a_bytes = Some a_value"
  shows "\<exists>out. unpack_zip_response_async lib released response = Inr (PDict out) \<and>
           distinct (map fst out) \<and> set (map fst out) = {''a'', ''image'', ''video''} \<and>
           map_of out ''a'' = Some a_value \<and>
           map_of out ''image'' = Some (PBytes png) \<and>
           map_of out ''video'' = Some (PBytes mp4)"
proof -
  have "archive = [(''a.json'', a_bytes), (''image.png'', png), (''video.mp4'', mp4)]
      \<or> archive = [(''a.json'', a_bytes), (''video.mp4'', mp4), (''image.png'', png)]
      \<or> archive = [(''image.png'', png), (''a.json'', a_bytes), (''video.mp4'', mp4)]
      \<or> archive = [(''image.png'', png), (''video.mp4'', mp4), (''a.json'', a_bytes)]
      \<or> archive = [(''video.mp4'', mp4), (''a.json'', a_bytes), (''image.png'', png)]
      \<or> archive = [(''video.mp4'', mp4), (''image.png'', png), (''a.json'', a_bytes)]"
    using assms(4,5) by (intro three_entries) simp_all
  then show ?thesis
    using assms(1,2,3,6)
    by (elim disjE)
       (auto simp: unpack_zip_response_async_def endswith_def basename_def zip_read_def)
qed

theorem C6_zip_round_trip_witness:
  "response_read False zip_response = Inr ''PK-archive'' \<and>
   is_zipfile example_lib ''PK-archive'' \<and>
   zip_entries example_lib ''PK-archive'' = Some example_archive \<and>
   length example_archive = 3 \<and>
   unpack_zip_response_async example_lib False zip_response
     = Inr (PDict [(''a'', PDict [(''ok'', PBool True)]), (''image'', PBytes ''PNG-bytes''),
                   (''video'', PBytes ''MP4-bytes'')])"
proof -
  have a: "response_read False zip_response = Inr ''PK-archive''"
    by (simp add: zip_response_def response_read_def)
  have b: "is_zipfile example_lib ''PK-archive''" by (simp add: example_lib_def)
  have c: "zip_entries example_lib ''PK-archive'' = Some example_archive"
    by (simp add: example_lib_def)
  have d: "length example_archive = 3" by (simp add: example_archive_def)
  have e: "set example_archive
      = {(''a.json'', ''{\"ok\": true}''), (''image.png'', ''PNG-bytes''), (''video.mp4'', ''MP4-bytes'')}"
    by (simp add: example_archive_def)
  have f: "json_loads example_lib ''{\"ok\": true}'' = Some (PDict [(''ok'', PBool True)])"
    by (simp add: example_lib_def example_loads_def)
  from C6_zip_round_trip [OF a b c d e f] a b c d show ?thesis
    by (simp add: unpack_zip_response_async_def example_archive_def endswith_def basename_def
        zip_read_def example_lib_def example_loads_def response_read_def zip_response_def)
qed


section \<open>Properties of the orchestrator\<close>

lemma last_response_append:
  "last_response (xs @ ys)
     = (case last_response ys of Some r \<Rightarrow> Some r | None \<Rightarrow> last_response xs)"
  by (induction xs) (auto split: option.splits)

lemma last_response_last:
  "evs \<noteq> [] \<Longrightarrow> last evs = Request q (Inr r) \<Longrightarrow> last_response evs = Some r"
  by (induction evs) (auto split: option.splits if_splits)

text \<open>What the poll returns is the last response the session received.\<close>

lemma poll_response_returned:
  assumes "poll_response_async lib srv n response0 token nvcf_url initial_delay max_attempts
             max_backoff = (Inr r, evs)"
  shows "last_response (Request rq (Inr response0) # evs) = Some r"
proof -
  obtain a where loop:
    "poll_loop lib srv token nvcf_url max_attempts max_backoff n response0 0 initial_delay
       = (Inr (r, a), evs)"
    using assms
    by (auto simp: poll_response_async_def split: prod.splits sum.splits if_splits)
  from poll_loop_returned [OF loop] show ?thesis
    by (auto simp: last_response_last)
qed

text \<open>
  Whenever \<^verbatim>\<open>api_call_async\<close> returns a \<^verbatim>\<open>Result\<close>, its \<open>status_code\<close> is the status of the last
  HTTP response the session received; if that status is not 200, \<open>response_text\<close> is the
  text of the body and \<open>output\<close> is \<^verbatim>\<open>None\<close>.
\<close>

lemma last_response_after_poll:
  assumes "poll_response_async lib srv n response0 token nvcf_url initial_delay max_attempts
             max_backoff = (Inr r, evs')"
  shows "last_response (evs0 @ Request rq (Inr response0) # evs') = Some r"
  unfolding last_response_append poll_response_returned [OF assms] by simp

lemma api_call_status_code:
  assumes "api_call_async lib fs srv token params filepaths nvcf_url = (Inr result, evs)"
  shows "\<exists>r. last_response evs = Some r \<and> status_code result = status r \<and>
           (status r \<noteq> 200 \<longrightarrow>
              (\<exists>t. response_body_text lib r = Inr t \<and> response_text result = PStr t) \<and>
              output result = PNone)"
  using assms
  by (auto simp: api_call_async_def Let_def last_response_after_poll
      split: prod.splits sum.splits if_splits error.splits client_error.splits)

lemmas example_call_defs =
  api_call_async_def generate_command_def format_request_def submit_request_def
  process_response_def unpack_zip_response_async_def response_read_def pending_then_zip_def
  zip_response_def example_archive_def endswith_def basename_def zip_read_def

text \<open>
  C5. The claim fails for an archive that arrives through a poll: the
  response that \<^verbatim>\<open>_poll_response_async\<close> returns was released when its \<^verbatim>\<open>async with\<close> block
  ended, and \<^verbatim>\<open>await response.read()\<close> in \<^verbatim>\<open>_unpack_zip_response_async\<close> raises
  \<^verbatim>\<open>ClientConnectionError\<close> on it, which \<^verbatim>\<open>api_call_async\<close> does not catch. So for a job that
  is pending once and then answers 200 with a well-formed archive, no \<^verbatim>\<open>Result\<close> is
  returned. The same archive as the answer to the submission itself is decoded, and so
  is a JSON body that arrives through a poll (\<^verbatim>\<open>text()\<close> takes the bytes that were kept).
\<close>

theorem C5_polled_archive_is_not_decoded:
  "api_call_async example_lib example_fs (pending_then_zip 1) ''tok'' [(''seed'', PStr ''1'')] []
     ''https://nvcf''
   = (Inl (ClientError ClientConnectionError),
      [Request submit_request (Inr pending_response),
       Request status_request (Inr zip_response)]) \<and>
   api_call_async example_lib example_fs (pending_then_zip 0) ''tok'' [(''seed'', PStr ''1'')] []
     ''https://nvcf''
   = (Inr \<lparr>response_text =
             PDict [(''a'', PDict [(''ok'', PBool True)]), (''image'', PBytes ''PNG-bytes''),
                    (''video'', PBytes ''MP4-bytes'')],
           output =
             PDict [(''a'', PDict [(''ok'', PBool True)]), (''image'', PBytes ''PNG-bytes''),
                    (''video'', PBytes ''MP4-bytes'')],
           status_code = 200\<rparr>,
      [Request submit_request (Inr zip_response)]) \<and>
   api_call_async example_lib example_fs (pending_then_done 1) ''tok'' [(''seed'', PStr ''1'')] []
     ''https://nvcf''
   = (Inr \<lparr>response_text = PDict [(''ok'', PBool True)], output = PDict [(''ok'', PBool True)],
           status_code = 200\<rparr>,
      [Request submit_request (Inr pending_response),
       Request status_request (Inr done_response)])"
  by (simp add: example_call_defs example_defs poll_loop.simps)


end
